theory Spec2Isabelle
  imports Complex_Main
begin

section \<open>Data exchanged with the Slack client\<close>

text \<open>
  The program (\<^verbatim>\<open>wb2k/__main__.py\<close>, \<^verbatim>\<open>wb2k/sendMessage.py\<close>) talks to Slack through a
  \<^verbatim>\<open>SlackClient\<close> object \<^verbatim>\<open>sc\<close>. What it reads from that object are JSON
  dictionaries. Their fields are read with \<^verbatim>\<open>dict.get\<close>, which yields \<^verbatim>\<open>None\<close> for a
  missing key (and for a JSON null), so every field that the program reads with
  \<^verbatim>\<open>.get\<close> is an \<open>option\<close> here. The field types are the ones Slack's events and
  listings have: identifiers and names are strings, \<^verbatim>\<open>user_profile\<close> is a nested
  dictionary.
\<close>

text \<open>An entry of \<^verbatim>\<open>channels.list\<close> or \<^verbatim>\<open>groups.list\<close>: read as \<^verbatim>\<open>c['id']\<close>, \<^verbatim>\<open>c['name']\<close>.\<close>

record chan =
  chan_id :: string
  chan_name :: string

text \<open>The nested \<^verbatim>\<open>user_profile\<close> dictionary of an event; \<^verbatim>\<open>user_profile.get('name')\<close>.\<close>

record profile =
  profile_name :: "string option"

text \<open>
  An inbound event, as \<^verbatim>\<open>handle_message\<close> reads it: \<^verbatim>\<open>message.get('subtype')\<close>,
  \<^verbatim>\<open>message.get('user')\<close>, \<^verbatim>\<open>message.get('channel')\<close>, \<^verbatim>\<open>message.get('user_profile')\<close>.
\<close>

record message =
  msg_subtype :: "string option"
  msg_user :: "string option"
  msg_channel :: "string option"
  msg_user_profile :: "profile option"

text \<open>
  The exceptions that can leave a function of the program: \<^verbatim>\<open>sys.exit(text)\<close> raises
  \<^verbatim>\<open>SystemExit\<close> with the text, calling \<^verbatim>\<open>.get\<close> on \<^verbatim>\<open>None\<close> (or a method of a missing
  object inside the client) raises \<^verbatim>\<open>AttributeError\<close>, adding \<^verbatim>\<open>None\<close> and a list raises
  \<^verbatim>\<open>TypeError\<close>.
\<close>

datatype exn = SystemExit string | AttributeError | TypeError

text \<open>
  \<^verbatim>\<open>sc.rtm_read()\<close> returns the batch of events that is available, or raises
  \<^verbatim>\<open>websocket.WebSocketConnectionClosedException\<close>.
\<close>

datatype read_result = Events "message list" | WebSocketConnectionClosedException

text \<open>
  \<^verbatim>\<open>sc.rtm_send_message(channel, text)\<close> returns, or raises \<^verbatim>\<open>AttributeError\<close> when the
  session lacks the object the message is sent through: the one failure of a send that
  the program names (\<^verbatim>\<open>except AttributeError\<close> in \<^verbatim>\<open>handle_message\<close>).
\<close>

datatype send_result = Sent | SendAttributeError

text \<open>
  The client as the program sees it. The calls are answered by a script: the \<open>k\<close>-th
  call of \<^verbatim>\<open>rtm_connect\<close>, \<^verbatim>\<open>rtm_read\<close> and \<^verbatim>\<open>rtm_send_message\<close> (counted from 0) gets
  the \<open>k\<close>-th answer. \<open>channels_list\<close> is \<^verbatim>\<open>sc.api_call("channels.list").get('channels')\<close>
  and \<open>groups_list\<close> is \<^verbatim>\<open>sc.api_call("groups.list").get('groups')\<close>: \<open>None\<close> when the
  answer carries no such collection.
\<close>

record slack =
  rtm_connect :: "nat \<Rightarrow> bool"
  rtm_read :: "nat \<Rightarrow> read_result"
  rtm_send_message :: "nat \<Rightarrow> send_result"
  channels_list :: "chan list option"
  groups_list :: "chan list option"

section \<open>The state of a run\<close>

text \<open>What a log record carries: a text, or the event that \<^verbatim>\<open>logger.debug(message)\<close> prints.\<close>

datatype payload = Text string | Dump message

text \<open>
  \<open>retry_count\<close> is the variable of \<^verbatim>\<open>cli\<close>. The three counters and lists record the
  calls made on the client (each send call with its channel and text) and the
  \<^verbatim>\<open>time.sleep\<close> calls with their durations in seconds. \<open>root_level\<close> is the level
  \<^verbatim>\<open>setup_logging\<close> gives the root logger, \<open>logger_level\<close> the level of the module's own
  logger (0 is \<^verbatim>\<open>NOTSET\<close>), \<open>logged\<close> the records that were emitted.
\<close>

record state =
  retry_count :: int
  connect_calls :: nat
  read_calls :: nat
  send_calls :: "(string \<times> string) list"
  slept :: "rat list"
  root_level :: nat
  logger_level :: nat
  logged :: "(nat \<times> payload) list"

text \<open>
  A function of the program either returns (\<open>Ok\<close>) or raises (\<open>Raised\<close>); both carry the
  state reached.
\<close>

datatype outcome = Ok state | Raised exn state

fun state_of :: "outcome \<Rightarrow> state" where
  "state_of (Ok s) = s"
| "state_of (Raised e s) = s"

section \<open>Logging\<close>

definition DEBUG :: nat where "DEBUG = 10"
definition INFO :: nat where "INFO = 20"
definition WARNING :: nat where "WARNING = 30"
definition ERROR :: nat where "ERROR = 40"

text \<open>
  \<^verbatim>\<open>Logger.getEffectiveLevel\<close>: the module logger's own level when it is set, the root
  logger's otherwise.
\<close>

definition effective_level :: "state \<Rightarrow> nat" where
  "effective_level s = (if logger_level s \<noteq> 0 then logger_level s else root_level s)"

text \<open>\<^verbatim>\<open>logger.debug\<close>, \<^verbatim>\<open>logger.info\<close>, \<^verbatim>\<open>logger.error\<close>: the record is emitted when enabled.\<close>

definition emit :: "nat \<Rightarrow> payload \<Rightarrow> state \<Rightarrow> state" where
  "emit lvl p s =
     (if effective_level s \<le> lvl then s\<lparr>logged := logged s @ [(lvl, p)]\<rparr> else s)"

text \<open>\<^verbatim>\<open>'level': logging.INFO if verbose < 1 else logging.DEBUG\<close>\<close>

definition setup_logging :: "nat \<Rightarrow> state \<Rightarrow> state" where
  "setup_logging verbose s = s\<lparr>root_level := (if verbose < 1 then INFO else DEBUG)\<rparr>"

section \<open>Fatal messages\<close>

text \<open>
  \<^verbatim>\<open>click.style\<close> is a function of the click library, not of this repository. For
  \<^verbatim>\<open>fg='red'\<close>, the only colour either source file passes, it wraps the text in the ANSI
  codes for red and reset, and that is what this definition gives. For any other colour
  the definition leaves the text as it is, which is not what click does; no statement
  below is about another colour.
\<close>

definition click_style :: "string \<Rightarrow> string \<Rightarrow> string" where
  "click_style text fg =
     (if fg = ''red'' then [CHR 0x1B] @ ''[31m'' @ text @ [CHR 0x1B] @ ''[0m'' else text)"

definition bail :: "string \<Rightarrow> string \<Rightarrow> string \<Rightarrow> string" where
  "bail msg_type color text = click_style msg_type color @ '': '' @ text"

section \<open>Channel resolution\<close>

text \<open>Python's truth value of an optional list and of an optional string.\<close>

fun truthy :: "'a list option \<Rightarrow> bool" where
  "truthy None = False"
| "truthy (Some xs) = (xs \<noteq> [])"

text \<open>
  \<^verbatim>\<open>find_channel_id(channel, sc)\<close>, the same text in both source files. The sum
  \<^verbatim>\<open>channels_list + groups_list\<close> raises \<^verbatim>\<open>TypeError\<close> unless both are lists; the list
  comprehension keeps the ids of the entries whose name is \<^verbatim>\<open>channel\<close>.
\<close>

definition find_channel_id :: "string \<Rightarrow> slack \<Rightarrow> exn + string" where
  "find_channel_id channel sc =
     (if \<not> truthy (channels_list sc) \<and> \<not> truthy (groups_list sc)
      then Inl (SystemExit (bail ''fatal'' ''red'' ''Couldn't enumerate channels/groups''))
      else
        (case (channels_list sc, groups_list sc) of
           (Some cs, Some gs) \<Rightarrow>
             (let channel_ids = map chan_id (filter (\<lambda>c. chan_name c = channel) (cs @ gs))
              in case channel_ids of
                   [] \<Rightarrow> Inl (SystemExit (bail ''fatal'' ''red'' (''Couldn't find #'' @ channel)))
                 | i # _ \<Rightarrow> Inr i)
         | _ \<Rightarrow> Inl TypeError))"

section \<open>Handling one event\<close>

text \<open>\<^verbatim>\<open>"{}".format(x)\<close> for an optional string: \<^verbatim>\<open>None\<close> prints as \<^verbatim>\<open>None\<close>.\<close>

fun format_opt :: "string option \<Rightarrow> string" where
  "format_opt None = ''None''"
| "format_opt (Some x) = x"

definition welcome_text :: "string option \<Rightarrow> string" where
  "welcome_text user =
     ''Sup, <@'' @ format_opt user @ ''> :hand:'' @ [CHR 0x0A] @
     ''Make sure to add a party hat to your avatar!''"

text \<open>
  One call of \<^verbatim>\<open>sc.rtm_send_message(channel, text)\<close>: the call is recorded, its answer
  is the script's answer for this call.
\<close>

definition send :: "slack \<Rightarrow> string \<Rightarrow> string \<Rightarrow> state \<Rightarrow> send_result \<times> state" where
  "send sc channel text s =
     (rtm_send_message sc (length (send_calls s)),
      s\<lparr>send_calls := send_calls s @ [(channel, text)]\<rparr>)"

text \<open>
  \<^verbatim>\<open>handle_message(message, channel, channel_id, sc, logger)\<close>. The profile is read
  (\<^verbatim>\<open>user_profile.get('name')\<close>) before the channel is compared and outside the
  \<^verbatim>\<open>try\<close>: on a missing profile the call is \<^verbatim>\<open>None.get\<close>, which raises
  \<^verbatim>\<open>AttributeError\<close> out of the function. The \<^verbatim>\<open>try\<close> covers the send and the info
  record only.
\<close>

definition handle_message ::
  "message \<Rightarrow> string \<Rightarrow> string \<Rightarrow> slack \<Rightarrow> state \<Rightarrow> outcome" where
  "handle_message message channel channel_id sc s0 =
     (let s = emit DEBUG (Dump message) s0;
          subtype = msg_subtype message;
          user = msg_user message
      in if (subtype = Some ''group_join'' \<or> subtype = Some ''channel_join'') \<and> truthy user
         then
           (let message_channel_id = msg_channel message
            in case msg_user_profile message of
                 None \<Rightarrow> Raised AttributeError s
               | Some user_profile \<Rightarrow>
                   (let username = profile_name user_profile
                    in if message_channel_id = Some channel_id
                       then
                         (case send sc channel (welcome_text user) s of
                            (Sent, s1) \<Rightarrow>
                              Ok (emit INFO
                                    (Text (''Welcomed '' @ format_opt username @ '' to #'' @ channel))
                                    s1)
                          | (SendAttributeError, s1) \<Rightarrow>
                              Ok (emit ERROR
                                    (Text (''Couldn't send message to #'' @ channel))
                                    (s1\<lparr>logger_level := ERROR\<rparr>)))
                       else Ok s))
         else Ok s)"

text \<open>The \<^verbatim>\<open>for\<close> loop over a batch: an exception of one call ends the loop.\<close>

fun handle_messages ::
  "message list \<Rightarrow> string \<Rightarrow> string \<Rightarrow> slack \<Rightarrow> state \<Rightarrow> outcome" where
  "handle_messages [] channel channel_id sc s = Ok s"
| "handle_messages (message # rest) channel channel_id sc s =
     (case handle_message message channel channel_id sc s of
        Ok s1 \<Rightarrow> handle_messages rest channel channel_id sc s1
      | Raised e s1 \<Rightarrow> Raised e s1)"

section \<open>The read loop of \<^verbatim>\<open>__main__.cli\<close>\<close>

text \<open>\<^verbatim>\<open>backoff = 0.5\<close>; the sleep after a failed reconnect is \<^verbatim>\<open>(backoff ** 2) / 4\<close>.\<close>

definition backoff :: rat where "backoff = 1 / 2"

text \<open>
  One pass of \<^verbatim>\<open>while True\<close>. The \<^verbatim>\<open>try\<close> reads a batch, handles it, resets
  \<open>retry_count\<close> and sleeps; only the connection-closed exception is caught, so an
  \<^verbatim>\<open>AttributeError\<close> of \<^verbatim>\<open>handle_message\<close> leaves the loop. The handler calls
  \<^verbatim>\<open>rtm_connect\<close> once; \<^verbatim>\<open>retry_count += 1\<close> stands after the \<^verbatim>\<open>if\<close>/\<^verbatim>\<open>else\<close>, so it runs
  on both branches unless \<^verbatim>\<open>sys.exit\<close> was reached.
\<close>

definition loop_pass :: "slack \<Rightarrow> string \<Rightarrow> string \<Rightarrow> int \<Rightarrow> state \<Rightarrow> outcome" where
  "loop_pass sc channel channel_id retries s0 =
     (let s = s0\<lparr>read_calls := Suc (read_calls s0)\<rparr>
      in case rtm_read sc (read_calls s0) of
           Events batch \<Rightarrow>
             (case handle_messages batch channel channel_id sc s of
                Ok s1 \<Rightarrow> Ok (s1\<lparr>retry_count := 0, slept := slept s1 @ [1 / 2]\<rparr>)
              | Raised e s1 \<Rightarrow> Raised e s1)
         | WebSocketConnectionClosedException \<Rightarrow>
             (let s1 = emit ERROR (Text ''Lost connection to Slack, reconnecting...'') s;
                  s2 = s1\<lparr>connect_calls := Suc (connect_calls s1)\<rparr>
              in if \<not> rtm_connect sc (connect_calls s1)
                 then
                   (let s3 = emit INFO (Text ''Failed to reconnect to Slack'') s2
                    in if retries \<le> retry_count s3
                       then Raised (SystemExit (bail ''fatal'' ''red''
                              ''Too many failed reconnect attempts, shutting down'')) s3
                       else Ok (s3\<lparr>slept := slept s3 @ [backoff ^ 2 / 4],
                                    retry_count := retry_count s3 + 1\<rparr>))
                 else
                   (let s3 = emit INFO (Text ''Reconnected to Slack'') s2
                    in Ok (s3\<lparr>retry_count := retry_count s3 + 1\<rparr>))))"

text \<open>
  The loop has no exit but an exception, so it is run for a number of passes: \<open>Ok s\<close>
  is the state after that many passes with the loop still running, \<open>Raised e s\<close> the
  exception that ended it.
\<close>

fun main_loop :: "nat \<Rightarrow> slack \<Rightarrow> string \<Rightarrow> string \<Rightarrow> int \<Rightarrow> state \<Rightarrow> outcome" where
  "main_loop 0 sc channel channel_id retries s = Ok s"
| "main_loop (Suc n) sc channel channel_id retries s =
     (case loop_pass sc channel channel_id retries s of
        Ok s1 \<Rightarrow> main_loop n sc channel channel_id retries s1
      | Raised e s1 \<Rightarrow> Raised e s1)"

section \<open>The two entry points\<close>

text \<open>
  Before \<^verbatim>\<open>setup_logging\<close> nothing has been called and the root logger has Python's
  default level.
\<close>

definition start :: state where
  "start = \<lparr>retry_count = 0, connect_calls = 0, read_calls = 0, send_calls = [],
            slept = [], root_level = WARNING, logger_level = 0, logged = []\<rparr>"

text \<open>
  \<^verbatim>\<open>cli(channel, verbose, retries, announce)\<close> of \<^verbatim>\<open>__main__.py\<close>, run for \<open>passes\<close>
  passes of its loop. \<open>api_token\<close> is \<^verbatim>\<open>os.environ.get('WB2K_TOKEN')\<close>; \<open>verbose\<close> is
  a count of \<^verbatim>\<open>-v\<close> flags, \<open>retries\<close> any integer (\<^verbatim>\<open>type=(int)\<close>, no range check).
  The announcement ends with the party-popper emoji, here its four UTF-8 bytes; no
  \<^verbatim>\<open>try\<close> stands around that send.
\<close>

definition cli ::
  "slack \<Rightarrow> string option \<Rightarrow> string \<Rightarrow> nat \<Rightarrow> int \<Rightarrow> bool \<Rightarrow> nat \<Rightarrow> outcome" where
  "cli sc api_token channel verbose retries announce passes =
     (if 11 < verbose
      then Raised (SystemExit (bail ''fatal'' ''red'' ''It doesn't go beyond 11'')) start
      else
        (let s = setup_logging verbose start
         in if \<not> truthy api_token
            then Raised (SystemExit (bail ''fatal'' ''red'' ''WB2K_TOKEN envvar undefined'')) s
            else
              (let s1 = s\<lparr>connect_calls := Suc (connect_calls s)\<rparr>
               in if rtm_connect sc (connect_calls s)
                  then
                    (let s2 = emit INFO (Text ''Connected to Slack'') s1
                     in case find_channel_id channel sc of
                          Inl e \<Rightarrow> Raised e s2
                        | Inr channel_id \<Rightarrow>
                            (let s3 = emit DEBUG
                                   (Text (''Found channel ID '' @ channel_id @ '' for #'' @ channel)) s2;
                                 s4 = emit INFO (Text (''Listening for joins in #'' @ channel)) s3;
                                 s5 = s4\<lparr>retry_count := 0\<rparr>
                             in if announce
                                then
                                  (case send sc channel
                                          (''hello party people '' @
                                           [CHR 0xF0, CHR 0x9F, CHR 0x8E, CHR 0x89]) s5 of
                                     (Sent, s6) \<Rightarrow>
                                       main_loop passes sc channel channel_id retries s6
                                   | (SendAttributeError, s6) \<Rightarrow> Raised AttributeError s6)
                                else main_loop passes sc channel channel_id retries s5))
                  else Raised (SystemExit (bail ''fatal'' ''red'' ''Couldn't connect to Slack'')) s1)))"

text \<open>
  \<^verbatim>\<open>cli(channel, verbose, retries, message)\<close> of \<^verbatim>\<open>sendMessage.py\<close>: no loop, and no
  \<^verbatim>\<open>try\<close> around the send. \<^verbatim>\<open>if message:\<close> holds for a text that is given and not
  empty. \<open>Ok\<close> is the function returning.
\<close>

definition sendMessage_cli ::
  "slack \<Rightarrow> string option \<Rightarrow> string \<Rightarrow> nat \<Rightarrow> int \<Rightarrow> string option \<Rightarrow> outcome" where
  "sendMessage_cli sc api_token channel verbose retries message =
     (if 11 < verbose
      then Raised (SystemExit (bail ''fatal'' ''red'' ''It doesn't go beyond 11'')) start
      else
        (let s = setup_logging verbose start
         in if \<not> truthy api_token
            then Raised (SystemExit (bail ''fatal'' ''red'' ''WB2K_TOKEN envvar undefined'')) s
            else
              (let s1 = s\<lparr>connect_calls := Suc (connect_calls s)\<rparr>
               in if rtm_connect sc (connect_calls s)
                  then
                    (let s2 = emit INFO (Text ''Connected to Slack'') s1
                     in case find_channel_id channel sc of
                          Inl e \<Rightarrow> Raised e s2
                        | Inr channel_id \<Rightarrow>
                            (let s3 = emit DEBUG
                                   (Text (''Found channel ID '' @ channel_id @ '' for #'' @ channel)) s2
                             in case message of
                                  None \<Rightarrow> Ok s3
                                | Some text \<Rightarrow>
                                    if text \<noteq> []
                                    then
                                      (case send sc channel text s3 of
                                         (Sent, s4) \<Rightarrow> Ok s4
                                       | (SendAttributeError, s4) \<Rightarrow> Raised AttributeError s4)
                                    else Ok s3))
                  else Raised (SystemExit (bail ''fatal'' ''red'' ''Couldn't connect to Slack'')) s1)))"

text \<open>
  The exit status of the process once it has ended: 0 when \<^verbatim>\<open>cli\<close> returns, 1 when
  \<^verbatim>\<open>sys.exit\<close> was called with a text or an exception was not caught.
\<close>

fun exit_status :: "outcome \<Rightarrow> int" where
  "exit_status (Ok s) = 0"
| "exit_status (Raised e s) = 1"

section \<open>Names for the fatal exits\<close>

definition enumeration_error :: exn where
  "enumeration_error =
     SystemExit (bail ''fatal'' ''red'' ''Couldn't enumerate channels/groups'')"

definition channel_not_found :: "string \<Rightarrow> exn" where
  "channel_not_found channel =
     SystemExit (bail ''fatal'' ''red'' (''Couldn't find #'' @ channel))"

definition too_many_retries :: exn where
  "too_many_retries =
     SystemExit (bail ''fatal'' ''red'' ''Too many failed reconnect attempts, shutting down'')"

definition beyond_eleven :: exn where
  "beyond_eleven = SystemExit (bail ''fatal'' ''red'' ''It doesn't go beyond 11'')"

section \<open>Concrete clients and events\<close>

text \<open>
  A healthy client: every connect succeeds, every read returns an empty batch, every
  send returns; the public listing holds \<^verbatim>\<open>{id: "C123", name: "general"}\<close>, the private
  listing is empty.
\<close>

definition general_only :: slack where
  "general_only =
     \<lparr>rtm_connect = (\<lambda>k. True), rtm_read = (\<lambda>k. Events []),
      rtm_send_message = (\<lambda>k. Sent),
      channels_list = Some [\<lparr>chan_id = ''C123'', chan_name = ''general''\<rparr>],
      groups_list = Some []\<rparr>"

definition reads_first :: "message list \<Rightarrow> slack" where
  "reads_first batch =
     general_only\<lparr>rtm_read := (\<lambda>k. if k = 0 then Events batch else Events [])\<rparr>"

text \<open>One listing is missing, the other holds the channel.\<close>

definition groups_missing :: slack where
  "groups_missing = general_only\<lparr>groups_list := None\<rparr>"

definition channels_missing :: slack where
  "channels_missing =
     general_only\<lparr>channels_list := None,
                    groups_list := Some [\<lparr>chan_id = ''G7'', chan_name = ''general''\<rparr>]\<rparr>"

text \<open>
  The public listing holds two channels, the second of them \<^verbatim>\<open>general\<close>; the answer to
  \<^verbatim>\<open>groups.list\<close> carries no \<^verbatim>\<open>groups\<close>.
\<close>

definition groups_unavailable :: slack where
  "groups_unavailable =
     general_only\<lparr>channels_list := Some [\<lparr>chan_id = ''C001'', chan_name = ''random''\<rparr>,
                                          \<lparr>chan_id = ''C123'', chan_name = ''general''\<rparr>],
                    groups_list := None\<rparr>"

text \<open>Join events for the channel \<^verbatim>\<open>C123\<close>, with and without the nested profile.\<close>

definition join_ada :: message where
  "join_ada =
     \<lparr>msg_subtype = Some ''channel_join'', msg_user = Some ''U1'',
      msg_channel = Some ''C123'',
      msg_user_profile = Some \<lparr>profile_name = Some ''Ada''\<rparr>\<rparr>"

definition join_no_profile :: message where
  "join_no_profile =
     \<lparr>msg_subtype = Some ''channel_join'', msg_user = Some ''U1'',
      msg_channel = Some ''C123'', msg_user_profile = None\<rparr>"

definition group_join_no_profile :: message where
  "group_join_no_profile =
     \<lparr>msg_subtype = Some ''group_join'', msg_user = Some ''U2'',
      msg_channel = Some ''C123'', msg_user_profile = None\<rparr>"

text \<open>The first send raises, the later ones return; the first batch holds one join.\<close>

definition stale :: slack where
  "stale =
     general_only\<lparr>rtm_read := (\<lambda>k. if k = 0 then Events [join_ada] else Events []),
                    rtm_send_message := (\<lambda>k. if k = 0 then SendAttributeError else Sent)\<rparr>"

text \<open>Every send raises.\<close>

definition never_sends :: slack where
  "never_sends = general_only\<lparr>rtm_send_message := (\<lambda>k. SendAttributeError)\<rparr>"

text \<open>The first connect succeeds; after it every read raises and every connect fails.\<close>

definition dead :: slack where
  "dead = general_only\<lparr>rtm_connect := (\<lambda>k. k = 0),
                        rtm_read := (\<lambda>k. WebSocketConnectionClosedException)\<rparr>"

text \<open>
  Three reads raise; the reconnects after the first two fail, the third succeeds; then
  the reads return empty batches.
\<close>

definition flaky :: slack where
  "flaky = general_only\<lparr>rtm_connect := (\<lambda>k. k = 0 \<or> 3 \<le> k),
                         rtm_read := (\<lambda>k. if k < 3 then WebSocketConnectionClosedException
                                            else Events [])\<rparr>"

section \<open>Notions the statements use\<close>

text \<open>
  The three conditions of a join in the target channel: the subtype is one of the two
  join markers, the user reference is there (Python's truth value: given and not
  empty), the channel reference is the resolved id.
\<close>

definition is_join :: "message \<Rightarrow> string \<Rightarrow> bool" where
  "is_join m channel_id \<longleftrightarrow>
     (msg_subtype m = Some ''channel_join'' \<or> msg_subtype m = Some ''group_join'') \<and>
     truthy (msg_user m) \<and> msg_channel m = Some channel_id"

text \<open>The reconnect attempts of a run of \<open>cli\<close>: its connect calls after the first.\<close>

definition reconnect_attempts :: "outcome \<Rightarrow> int" where
  "reconnect_attempts out = int (connect_calls (state_of out)) - 1"

text \<open>
  The control flow of a run: its outcome without the log, that is, without the
  records emitted and the level the verbosity gave the root logger. What stays are the
  exception, every call made on the client, the sleeps, \<open>retry_count\<close> and the level
  the program itself set on its logger.
\<close>

definition quiet :: "state \<Rightarrow> state" where
  "quiet s = s\<lparr>root_level := 0, logged := []\<rparr>"

fun flow :: "outcome \<Rightarrow> outcome" where
  "flow (Ok s) = Ok (quiet s)"
| "flow (Raised e s) = Raised e (quiet s)"

section \<open>Channel resolution: results\<close>

lemma first_of_filter:
  "(case map f (filter P xs) of [] \<Rightarrow> a | i # rest \<Rightarrow> b i) =
   (case find P xs of None \<Rightarrow> a | Some c \<Rightarrow> b (f c))"
  by (induction xs) auto

text \<open>
  Where the code resolves as described: when both listings are lists,
  \<open>find_channel_id\<close> exits with the enumeration message if both are empty, and
  otherwise returns the id of the first entry of \<open>cs @ gs\<close> whose name is exactly
  \<open>channel\<close>, or exits with the not-found message if there is none. When each listing
  is empty or missing, it exits with the enumeration message. The pairs left over, one
  listing missing and the other not empty, are where the code raises \<^verbatim>\<open>TypeError\<close>.
\<close>

theorem find_channel_id_first_match:
  "(channels_list sc = Some cs \<and> groups_list sc = Some gs \<longrightarrow>
      find_channel_id channel sc =
        (if cs = [] \<and> gs = [] then Inl enumeration_error
         else case find (\<lambda>c. chan_name c = channel) (cs @ gs) of
                None \<Rightarrow> Inl (channel_not_found channel)
              | Some c \<Rightarrow> Inr (chan_id c))) \<and>
   (\<not> truthy (channels_list sc) \<and> \<not> truthy (groups_list sc) \<longrightarrow>
      find_channel_id channel sc = Inl enumeration_error)"
  unfolding find_channel_id_def enumeration_error_def channel_not_found_def Let_def first_of_filter
  by (simp split: option.splits)

theorem find_channel_id_first_match_witness:
  "find_channel_id ''general'' general_only = Inr ''C123'' \<and>
   find_channel_id ''General'' general_only = Inl (channel_not_found ''General'') \<and>
   find_channel_id ''general'' (general_only\<lparr>channels_list := None, groups_list := Some []\<rparr>)
     = Inl enumeration_error"
  using find_channel_id_first_match [of general_only
      "[\<lparr>chan_id = ''C123'', chan_name = ''general''\<rparr>]" "[]" "''general''"]
    find_channel_id_first_match [of general_only
      "[\<lparr>chan_id = ''C123'', chan_name = ''general''\<rparr>]" "[]" "''General''"]
    find_channel_id_first_match
      [of "general_only\<lparr>channels_list := None, groups_list := Some []\<rparr>" "[]" "[]" "''general''"]
  by (simp add: general_only_def)

text \<open>
  C6. The code at a pair of listings of which one is unavailable: the public listing
  holds \<^verbatim>\<open>general\<close> with id \<^verbatim>\<open>C123\<close> (its first entry of that name), the private listing is
  missing. \<open>find_channel_id\<close> does not return \<^verbatim>\<open>C123\<close> and does not exit with one of
  its two labelled messages: it raises \<^verbatim>\<open>TypeError\<close>.
\<close>

theorem find_channel_id_one_listing_unavailable:
  "groups_list groups_unavailable = None \<and>
   (\<exists>cs. channels_list groups_unavailable = Some cs \<and>
         find (\<lambda>c. chan_name c = ''general'') cs =
           Some \<lparr>chan_id = ''C123'', chan_name = ''general''\<rparr>) \<and>
   find_channel_id ''general'' groups_unavailable = Inl TypeError \<and>
   find_channel_id ''general'' groups_unavailable \<noteq> Inr ''C123''"
  by (simp add: groups_unavailable_def general_only_def find_channel_id_def)

section \<open>What logging and setup leave alone\<close>

lemma send_calls_emit [simp]: "send_calls (emit l p s) = send_calls s"
  by (simp add: emit_def)

lemma connect_calls_emit [simp]: "connect_calls (emit l p s) = connect_calls s"
  by (simp add: emit_def)

lemma read_calls_emit [simp]: "read_calls (emit l p s) = read_calls s"
  by (simp add: emit_def)

lemma retry_count_emit [simp]: "retry_count (emit l p s) = retry_count s"
  by (simp add: emit_def)

lemma slept_emit [simp]: "slept (emit l p s) = slept s"
  by (simp add: emit_def)

lemma connect_calls_setup_logging [simp]:
  "connect_calls (setup_logging v s) = connect_calls s"
  by (simp add: setup_logging_def)

lemma send_calls_setup_logging [simp]:
  "send_calls (setup_logging v s) = send_calls s"
  by (simp add: setup_logging_def)

lemma read_calls_setup_logging [simp]:
  "read_calls (setup_logging v s) = read_calls s"
  by (simp add: setup_logging_def)

lemma connect_calls_start [simp]: "connect_calls start = 0"
  by (simp add: start_def)

lemma read_calls_start [simp]: "read_calls start = 0"
  by (simp add: start_def)

lemma send_calls_start [simp]: "send_calls start = []"
  by (simp add: start_def)

lemma emit_error_at_error_level:
  "logged (emit ERROR p (s\<lparr>logger_level := ERROR\<rparr>)) = logged s @ [(ERROR, p)]"
  by (simp add: emit_def effective_level_def ERROR_def)

section \<open>A failed resolution ends the run\<close>

lemma cli_resolution_raises:
  assumes "verbose \<le> 11" "truthy api_token" "rtm_connect sc 0"
    and "find_channel_id channel sc = Inl e"
  shows "\<exists>s. cli sc api_token channel verbose retries announce passes = Raised e s
           \<and> read_calls s = 0 \<and> send_calls s = []"
  using assms by (simp add: cli_def Let_def)

lemma sendMessage_cli_resolution_raises:
  assumes "verbose \<le> 11" "truthy api_token" "rtm_connect sc 0"
    and "find_channel_id channel sc = Inl e"
  shows "\<exists>s. sendMessage_cli sc api_token channel verbose retries message = Raised e s
           \<and> read_calls s = 0 \<and> send_calls s = []"
  using assms by (simp add: sendMessage_cli_def Let_def)

text \<open>
  C10. If one of the two listings is missing and the other is a non-empty list,
  \<open>find_channel_id\<close> raises \<^verbatim>\<open>TypeError\<close>: neither the enumeration exit nor a lookup
  result. Nothing catches it: a run of either entry point that has connected ends with
  this \<^verbatim>\<open>TypeError\<close>.
\<close>

theorem find_channel_id_type_error:
  assumes "channels_list sc = None \<and> truthy (groups_list sc) \<or>
           truthy (channels_list sc) \<and> groups_list sc = None"
  shows "find_channel_id channel sc = Inl TypeError \<and>
         (verbose \<le> 11 \<and> truthy api_token \<and> rtm_connect sc 0 \<longrightarrow>
           (\<exists>s. cli sc api_token channel verbose retries announce passes = Raised TypeError s) \<and>
           (\<exists>s. sendMessage_cli sc api_token channel verbose retries message =
                  Raised TypeError s))"
proof -
  have r: "find_channel_id channel sc = Inl TypeError"
    using assms by (auto simp: find_channel_id_def split: option.splits)
  show ?thesis
    using r cli_resolution_raises [OF _ _ _ r] sendMessage_cli_resolution_raises [OF _ _ _ r]
    by blast
qed

theorem find_channel_id_type_error_witness:
  "find_channel_id ''general'' groups_missing = Inl TypeError \<and>
   find_channel_id ''general'' channels_missing = Inl TypeError \<and>
   (\<exists>s. cli groups_missing (Some ''xoxb-1'') ''general'' 0 8 False 5 = Raised TypeError s) \<and>
   (\<exists>s. sendMessage_cli channels_missing (Some ''xoxb-1'') ''general'' 0 8 (Some ''hi'')
          = Raised TypeError s)"
proof -
  have a: "channels_list groups_missing = None \<and> truthy (groups_list groups_missing) \<or>
           truthy (channels_list groups_missing) \<and> groups_list groups_missing = None"
    by (simp add: groups_missing_def general_only_def)
  have b: "channels_list channels_missing = None \<and> truthy (groups_list channels_missing) \<or>
           truthy (channels_list channels_missing) \<and> groups_list channels_missing = None"
    by (simp add: channels_missing_def general_only_def)
  have c: "(0::nat) \<le> 11 \<and> truthy (Some ''xoxb-1'') \<and> rtm_connect groups_missing 0"
    by (simp add: groups_missing_def general_only_def)
  have d: "(0::nat) \<le> 11 \<and> truthy (Some ''xoxb-1'') \<and> rtm_connect channels_missing 0"
    by (simp add: channels_missing_def general_only_def)
  show ?thesis
    using find_channel_id_type_error [OF a, of "''general''" 0 "Some ''xoxb-1''" 8 False 5]
      find_channel_id_type_error [OF b, of "''general''" 0 "Some ''xoxb-1''" 8 _ _ "Some ''hi''"]
      c d
    by blast
qed

section \<open>Handling one event: results\<close>

text \<open>
  For an event that carries a profile, the send call is made exactly when the three
  conditions hold, and the function returns; a profile without a name is enough.
\<close>

lemma handle_message_send_iff:
  assumes "msg_user_profile m \<noteq> None"
  shows "send_calls (state_of (handle_message m channel channel_id sc s)) =
           (if is_join m channel_id
            then send_calls s @ [(channel, welcome_text (msg_user m))] else send_calls s)"
  using assms
  by (auto simp: handle_message_def Let_def is_join_def send_def
      split: option.splits send_result.splits prod.splits)

lemma handle_message_with_profile_returns:
  assumes "msg_user_profile m = Some p"
  shows "\<exists>s'. handle_message m channel channel_id sc s = Ok s'"
  using assms
  by (auto simp: handle_message_def Let_def send_def split: send_result.splits)

lemma handle_message_not_join:
  assumes "\<not> is_join m channel_id"
  shows "send_calls (state_of (handle_message m channel channel_id sc s)) = send_calls s"
  using assms
  by (auto simp: handle_message_def Let_def is_join_def send_def
      split: option.splits send_result.splits prod.splits)

text \<open>
  C4. The code at a join event that has a user but no \<^verbatim>\<open>user_profile\<close>:
  \<open>handle_message\<close> raises \<^verbatim>\<open>AttributeError\<close>, and a run of \<open>cli\<close> that reads this
  event ends with that exception.
\<close>

theorem handle_message_missing_profile:
  "handle_message join_no_profile ''general'' ''C123'' sc s =
     Raised AttributeError (emit DEBUG (Dump join_no_profile) s) \<and>
   (\<exists>s'. cli (reads_first [join_no_profile]) (Some ''xoxb-1'') ''general'' 0 8 False 1 =
           Raised AttributeError s')"
  by (simp add: handle_message_def join_no_profile_def Let_def cli_def reads_first_def
      general_only_def find_channel_id_def loop_pass_def)

text \<open>
  C5. The code at a join event in the target channel that has a user but no
  \<^verbatim>\<open>user_profile\<close>: the three conditions hold, and no send call is made.
\<close>

theorem handle_message_no_send_without_profile:
  "is_join group_join_no_profile ''C123'' \<and>
   send_calls (state_of (handle_message group_join_no_profile ''general'' ''C123'' sc s)) =
     send_calls s"
  by (simp add: handle_message_def group_join_no_profile_def Let_def is_join_def)

lemma handle_message_stale:
  assumes "is_join m channel_id" "msg_user_profile m = Some p"
    and "rtm_send_message sc (length (send_calls s)) = SendAttributeError"
  shows "handle_message m channel channel_id sc s =
           Ok (emit ERROR (Text (''Couldn't send message to #'' @ channel))
                 ((emit DEBUG (Dump m) s)
                    \<lparr>send_calls := send_calls s @ [(channel, welcome_text (msg_user m))],
                     logger_level := ERROR\<rparr>))"
  using assms by (auto simp: handle_message_def Let_def is_join_def send_def)

text \<open>
  C7. For a join event in the target channel (with its profile) whose send call raises
  \<^verbatim>\<open>AttributeError\<close>: \<open>handle_message\<close> returns, the last record it emits is the error
  record \<^verbatim>\<open>Couldn't send message to #channel\<close> at level \<open>ERROR\<close>, the one send call was
  made and is not repeated, the rest of the batch is handled from the state reached,
  and a pass that reads this event completes, so that the loop goes on to its next
  pass.
\<close>

theorem stale_send_is_caught:
  assumes "is_join m channel_id" and "msg_user_profile m = Some p"
    and "rtm_send_message sc (length (send_calls s)) = SendAttributeError"
  shows "\<exists>s'. handle_message m channel channel_id sc s = Ok s' \<and>
           logged s' = logged (emit DEBUG (Dump m) s) @
                         [(ERROR, Text (''Couldn't send message to #'' @ channel))] \<and>
           send_calls s' = send_calls s @ [(channel, welcome_text (msg_user m))] \<and>
           handle_messages (m # rest) channel channel_id sc s =
             handle_messages rest channel channel_id sc s' \<and>
           (rtm_read sc (read_calls s) = Events [m] \<longrightarrow>
              (\<exists>s''. loop_pass sc channel channel_id retries s = Ok s'' \<and>
                 main_loop (Suc n) sc channel channel_id retries s =
                   main_loop n sc channel channel_id retries s''))"
proof -
  let ?s' = "emit ERROR (Text (''Couldn't send message to #'' @ channel))
                 ((emit DEBUG (Dump m) s)
                    \<lparr>send_calls := send_calls s @ [(channel, welcome_text (msg_user m))],
                     logger_level := ERROR\<rparr>)"
  have h: "handle_message m channel channel_id sc s = Ok ?s'"
    by (rule handle_message_stale [OF assms])
  have l: "logged ?s' = logged (emit DEBUG (Dump m) s) @
                         [(ERROR, Text (''Couldn't send message to #'' @ channel))]"
    using emit_error_at_error_level
      [of _ "(emit DEBUG (Dump m) s)\<lparr>send_calls := send_calls s @ [(channel, welcome_text (msg_user m))]\<rparr>"]
    by simp
  have c: "send_calls ?s' = send_calls s @ [(channel, welcome_text (msg_user m))]"
    by simp
  have b: "handle_messages (m # rest) channel channel_id sc s =
             handle_messages rest channel channel_id sc ?s'"
    by (simp add: h)
  have p: "rtm_read sc (read_calls s) = Events [m] \<longrightarrow>
              (\<exists>s''. loop_pass sc channel channel_id retries s = Ok s'' \<and>
                 main_loop (Suc n) sc channel channel_id retries s =
                   main_loop n sc channel channel_id retries s'')"
  proof
    assume r: "rtm_read sc (read_calls s) = Events [m]"
    have "rtm_send_message sc (length (send_calls (s\<lparr>read_calls := Suc (read_calls s)\<rparr>)))
            = SendAttributeError"
      using assms(3) by simp
    from handle_message_stale [OF assms(1,2) this]
    obtain t where
      "handle_message m channel channel_id sc (s\<lparr>read_calls := Suc (read_calls s)\<rparr>) = Ok t"
      by blast
    then have "\<exists>s''. loop_pass sc channel channel_id retries s = Ok s''"
      using r by (simp add: loop_pass_def Let_def)
    then show "\<exists>s''. loop_pass sc channel channel_id retries s = Ok s'' \<and>
                 main_loop (Suc n) sc channel channel_id retries s =
                   main_loop n sc channel channel_id retries s''"
      by auto
  qed
  from h l c b p show ?thesis by blast
qed

theorem stale_send_is_caught_witness:
  "\<exists>s'. handle_message join_ada ''general'' ''C123'' stale start = Ok s' \<and>
      logged s' = logged (emit DEBUG (Dump join_ada) start) @
                    [(ERROR, Text ''Couldn't send message to #general'')] \<and>
      send_calls s' = [(''general'', welcome_text (Some ''U1''))] \<and>
      handle_messages [join_ada, join_ada] ''general'' ''C123'' stale start =
        handle_messages [join_ada] ''general'' ''C123'' stale s' \<and>
      (\<exists>s''. loop_pass stale ''general'' ''C123'' 8 start = Ok s'' \<and>
         main_loop (Suc 0) stale ''general'' ''C123'' 8 start =
           main_loop 0 stale ''general'' ''C123'' 8 s'')"
proof -
  have a: "is_join join_ada ''C123''"
    by (simp add: is_join_def join_ada_def)
  have b: "msg_user_profile join_ada = Some \<lparr>profile_name = Some ''Ada''\<rparr>"
    by (simp add: join_ada_def)
  have c: "rtm_send_message stale (length (send_calls start)) = SendAttributeError"
    by (simp add: stale_def general_only_def)
  have d: "rtm_read stale (read_calls start) = Events [join_ada]"
    by (simp add: stale_def general_only_def)
  have e: "msg_user join_ada = Some ''U1''"
    by (simp add: join_ada_def)
  show ?thesis
    using stale_send_is_caught [OF a b c, of "''general''" "[join_ada]" 8 0] d e
    by simp
qed

section \<open>One pass of the loop: results\<close>

lemma loop_pass_events:
  assumes "rtm_read sc (read_calls s) = Events batch"
    and "loop_pass sc channel channel_id retries s = Ok s'"
  shows "retry_count s' = 0"
  using assms by (auto simp: loop_pass_def Let_def split: outcome.splits)

text \<open>
  C2. Whatever \<open>retry_count\<close> was: when the read of a pass returns a batch and the
  pass completes, \<open>retry_count\<close> is 0 after it; and a pass over an empty batch always
  completes.
\<close>

theorem loop_pass_resets_retry_count:
  assumes "rtm_read sc (read_calls s) = Events batch"
  shows "(\<forall>s'. loop_pass sc channel channel_id retries s = Ok s' \<longrightarrow> retry_count s' = 0) \<and>
         (batch = [] \<longrightarrow> (\<exists>s'. loop_pass sc channel channel_id retries s = Ok s'))"
  using assms by (auto simp: loop_pass_def Let_def split: outcome.splits)

theorem loop_pass_resets_retry_count_witness:
  "retry_count (start\<lparr>retry_count := 5\<rparr>) = 5 \<and>
   (\<exists>s'. loop_pass general_only ''general'' ''C123'' 8 (start\<lparr>retry_count := 5\<rparr>) = Ok s' \<and>
         retry_count s' = 0)"
proof -
  have h: "rtm_read general_only (read_calls (start\<lparr>retry_count := 5\<rparr>)) = Events []"
    by (simp add: general_only_def)
  show ?thesis
    using loop_pass_resets_retry_count [OF h, of "''general''" "''C123''" 8]
    by auto
qed

section \<open>The reconnect handler: results\<close>

lemma loop_pass_reconnect_fails:
  assumes "rtm_read sc (read_calls s) = WebSocketConnectionClosedException"
    and "\<not> rtm_connect sc (connect_calls s)"
  shows "retries \<le> retry_count s \<Longrightarrow>
           \<exists>s'. loop_pass sc channel channel_id retries s = Raised too_many_retries s' \<and>
                connect_calls s' = Suc (connect_calls s) \<and> read_calls s' = Suc (read_calls s)"
    and "retry_count s < retries \<Longrightarrow>
           \<exists>s'. loop_pass sc channel channel_id retries s = Ok s' \<and>
                connect_calls s' = Suc (connect_calls s) \<and> read_calls s' = Suc (read_calls s) \<and>
                retry_count s' = retry_count s + 1"
  using assms by (simp_all add: loop_pass_def Let_def too_many_retries_def)

lemma loop_pass_reconnect_succeeds:
  assumes "rtm_read sc (read_calls s) = WebSocketConnectionClosedException"
    and "rtm_connect sc (connect_calls s)"
  shows "\<exists>s'. loop_pass sc channel channel_id retries s = Ok s' \<and>
                connect_calls s' = Suc (connect_calls s) \<and> read_calls s' = Suc (read_calls s) \<and>
                retry_count s' = retry_count s + 1"
  using assms by (simp add: loop_pass_def Let_def)

lemma main_loop_add:
  "main_loop (n + k) sc channel channel_id retries s =
     (case main_loop n sc channel channel_id retries s of
        Ok s' \<Rightarrow> main_loop k sc channel channel_id retries s'
      | Raised e s' \<Rightarrow> Raised e s')"
  by (induction n arbitrary: s) (auto split: outcome.splits)

lemma main_loop_raised_stays:
  assumes "main_loop n sc channel channel_id retries s = Raised e s'" and "n \<le> k"
  shows "main_loop k sc channel channel_id retries s = Raised e s'"
proof -
  from assms(2) obtain d where "k = n + d" using le_Suc_ex by blast
  then show ?thesis using assms(1) by (simp add: main_loop_add)
qed

text \<open>While the counter stays below the ceiling, every pass is a failed attempt.\<close>

lemma failing_prefix:
  assumes "\<forall>k\<ge>read_calls s. rtm_read sc k = WebSocketConnectionClosedException"
    and "\<forall>k\<ge>connect_calls s. \<not> rtm_connect sc k"
    and "retry_count s + int n \<le> retries"
  shows "\<exists>s'. main_loop n sc channel channel_id retries s = Ok s' \<and>
           connect_calls s' = connect_calls s + n \<and> read_calls s' = read_calls s + n \<and>
           retry_count s' = retry_count s + int n"
  using assms
proof (induction n arbitrary: s)
  case 0
  then show ?case by simp
next
  case (Suc n)
  have r: "rtm_read sc (read_calls s) = WebSocketConnectionClosedException"
    and c: "\<not> rtm_connect sc (connect_calls s)"
    using Suc.prems by auto
  have "retry_count s < retries" using Suc.prems(3) by simp
  from loop_pass_reconnect_fails(2) [OF r c this]
  obtain s1 where s1: "loop_pass sc channel channel_id retries s = Ok s1"
    "connect_calls s1 = Suc (connect_calls s)" "read_calls s1 = Suc (read_calls s)"
    "retry_count s1 = retry_count s + 1"
    by blast
  have "\<exists>s'. main_loop n sc channel channel_id retries s1 = Ok s' \<and>
           connect_calls s' = connect_calls s1 + n \<and> read_calls s' = read_calls s1 + n \<and>
           retry_count s' = retry_count s1 + int n"
  proof (rule Suc.IH)
    show "\<forall>k\<ge>read_calls s1. rtm_read sc k = WebSocketConnectionClosedException"
      using Suc.prems(1) s1(3) by simp
    show "\<forall>k\<ge>connect_calls s1. \<not> rtm_connect sc k"
      using Suc.prems(2) s1(2) by simp
    show "retry_count s1 + int n \<le> retries"
      using Suc.prems(3) s1(4) by simp
  qed
  then show ?case using s1 by auto
qed

lemma failing_run_exits:
  assumes "\<forall>k\<ge>read_calls s. rtm_read sc k = WebSocketConnectionClosedException"
    and "\<forall>k\<ge>connect_calls s. \<not> rtm_connect sc k"
  shows "\<exists>s'. main_loop (Suc (nat (retries - retry_count s))) sc channel channel_id retries s =
                 Raised too_many_retries s' \<and>
               connect_calls s' = connect_calls s + Suc (nat (retries - retry_count s))"
proof -
  let ?n = "nat (retries - retry_count s)"
  show ?thesis
  proof (cases "retry_count s \<le> retries")
    case True
    then have "retry_count s + int ?n \<le> retries" by simp
    from failing_prefix [OF assms this]
    obtain s1 where s1: "main_loop ?n sc channel channel_id retries s = Ok s1"
      "connect_calls s1 = connect_calls s + ?n" "read_calls s1 = read_calls s + ?n"
      "retry_count s1 = retry_count s + int ?n"
      by blast
    have r: "rtm_read sc (read_calls s1) = WebSocketConnectionClosedException"
      and c: "\<not> rtm_connect sc (connect_calls s1)"
      using assms s1 by auto
    have "retries \<le> retry_count s1" using s1(4) True by simp
    from loop_pass_reconnect_fails(1) [OF r c this]
    obtain s2 where s2: "loop_pass sc channel channel_id retries s1 = Raised too_many_retries s2"
      "connect_calls s2 = Suc (connect_calls s1)"
      by blast
    have "main_loop (?n + 1) sc channel channel_id retries s = Raised too_many_retries s2"
      unfolding main_loop_add using s1(1) s2(1) by simp
    then show ?thesis using s2(2) s1(2) by auto
  next
    case False
    then have n0: "?n = 0" by simp
    have r: "rtm_read sc (read_calls s) = WebSocketConnectionClosedException"
      and c: "\<not> rtm_connect sc (connect_calls s)"
      using assms by auto
    have "retries \<le> retry_count s" using False by simp
    from loop_pass_reconnect_fails(1) [OF r c this]
    obtain s2 where s2: "loop_pass sc channel channel_id retries s = Raised too_many_retries s2"
      "connect_calls s2 = Suc (connect_calls s)"
      by blast
    then show ?thesis using n0 by simp
  qed
qed

lemma failing_run_bound:
  assumes "\<forall>k\<ge>read_calls s. rtm_read sc k = WebSocketConnectionClosedException"
    and "\<forall>k\<ge>connect_calls s. \<not> rtm_connect sc k"
  shows "connect_calls (state_of (main_loop n sc channel channel_id retries s)) \<le>
           connect_calls s + Suc (nat (retries - retry_count s))"
proof (cases "n \<le> nat (retries - retry_count s)")
  case True
  show ?thesis
  proof (cases "n = 0")
    case True
    then show ?thesis by simp
  next
    case False
    with \<open>n \<le> nat (retries - retry_count s)\<close>
    have "retry_count s + int n \<le> retries" by linarith
    from failing_prefix [OF assms this, of channel channel_id]
    obtain s' where "main_loop n sc channel channel_id retries s = Ok s'"
      "connect_calls s' = connect_calls s + n"
      by blast
    then show ?thesis
      using \<open>n \<le> nat (retries - retry_count s)\<close> by simp
  qed
next
  case False
  then have le: "Suc (nat (retries - retry_count s)) \<le> n" by simp
  from failing_run_exits [OF assms]
  obtain s' where s':
    "main_loop (Suc (nat (retries - retry_count s))) sc channel channel_id retries s =
       Raised too_many_retries s'"
    "connect_calls s' = connect_calls s + Suc (nat (retries - retry_count s))"
    by blast
  from main_loop_raised_stays [OF s'(1) le] s'(2) show ?thesis by simp
qed

text \<open>
  C1, as amended. From a state of the loop with \<open>retry_count = 0\<close> (the counter starts
  at 0 and every completed pass resets it, so this is its value at the first loss),
  if every read from now on raises the connection-closed exception and every connect
  from now on fails, then: after \<open>max retries 0 + 1\<close> passes the loop has ended with
  the fatal exit \<^verbatim>\<open>Too many failed reconnect attempts\<close>, having made exactly
  \<open>max retries 0 + 1\<close> reconnect attempts; running it longer changes nothing, so no
  attempt follows the exit; and at no point of the run have more attempts been made.
\<close>

theorem retry_ceiling:
  assumes "retry_count s = 0"
    and "\<forall>k\<ge>read_calls s. rtm_read sc k = WebSocketConnectionClosedException"
    and "\<forall>k\<ge>connect_calls s. \<not> rtm_connect sc k"
  shows "(\<exists>s'. main_loop (Suc (nat retries)) sc channel channel_id retries s =
                 Raised too_many_retries s' \<and>
               int (connect_calls s') - int (connect_calls s) = max retries 0 + 1) \<and>
         (\<forall>n\<ge>Suc (nat retries).
             main_loop n sc channel channel_id retries s =
             main_loop (Suc (nat retries)) sc channel channel_id retries s) \<and>
         (\<forall>n. int (connect_calls (state_of (main_loop n sc channel channel_id retries s)))
                 - int (connect_calls s) \<le> max retries 0 + 1)"
proof -
  have n: "nat (retries - retry_count s) = nat retries"
    using assms(1) by simp
  from failing_run_exits [OF assms(2,3), of retries channel channel_id]
  obtain s' where s':
    "main_loop (Suc (nat retries)) sc channel channel_id retries s = Raised too_many_retries s'"
    "connect_calls s' = connect_calls s + Suc (nat retries)"
    unfolding n by blast
  have a: "int (connect_calls s') - int (connect_calls s) = max retries 0 + 1"
    using s'(2) by simp
  have b: "\<forall>n\<ge>Suc (nat retries).
             main_loop n sc channel channel_id retries s =
             main_loop (Suc (nat retries)) sc channel channel_id retries s"
    using main_loop_raised_stays [OF s'(1)] s'(1) by simp
  have c: "\<forall>n. int (connect_calls (state_of (main_loop n sc channel channel_id retries s)))
                 - int (connect_calls s) \<le> max retries 0 + 1"
  proof
    fix n
    from failing_run_bound [OF assms(2,3), of n channel channel_id retries]
    have "connect_calls (state_of (main_loop n sc channel channel_id retries s)) \<le>
            connect_calls s + Suc (nat retries)"
      unfolding n .
    then show "int (connect_calls (state_of (main_loop n sc channel channel_id retries s)))
                 - int (connect_calls s) \<le> max retries 0 + 1"
      by linarith
  qed
  from s'(1) a b c show ?thesis by blast
qed

text \<open>
  With \<^verbatim>\<open>max_retries = 2\<close>: the loop exits fatally in its third pass, after the third
  failed attempt (four connect calls with the first one of the run), and seven passes
  give what three give.
\<close>

theorem retry_ceiling_witness:
  "(\<exists>s'. main_loop 3 dead ''general'' ''C123'' 2 (start\<lparr>connect_calls := 1\<rparr>) =
           Raised too_many_retries s' \<and> connect_calls s' = 4) \<and>
   main_loop 7 dead ''general'' ''C123'' 2 (start\<lparr>connect_calls := 1\<rparr>) =
     main_loop 3 dead ''general'' ''C123'' 2 (start\<lparr>connect_calls := 1\<rparr>)"
proof -
  let ?s = "start\<lparr>connect_calls := 1\<rparr>"
  have h1: "retry_count ?s = 0"
    by (simp add: start_def)
  have h2: "\<forall>k\<ge>read_calls ?s. rtm_read dead k = WebSocketConnectionClosedException"
    by (simp add: dead_def general_only_def)
  have h3: "\<forall>k\<ge>connect_calls ?s. \<not> rtm_connect dead k"
    by (simp add: dead_def general_only_def)
  have three: "Suc (nat 2) = 3" by simp
  from retry_ceiling [OF h1 h2 h3, of 2 "''general''" "''C123''"]
  have a: "\<exists>s'. main_loop 3 dead ''general'' ''C123'' 2 ?s = Raised too_many_retries s' \<and>
               int (connect_calls s') - int (connect_calls ?s) = max 2 0 + 1"
    and b: "\<forall>n\<ge>3. main_loop n dead ''general'' ''C123'' 2 ?s =
                   main_loop 3 dead ''general'' ''C123'' 2 ?s"
    unfolding three by blast+
  have "main_loop 7 dead ''general'' ''C123'' 2 ?s =
        main_loop 3 dead ''general'' ''C123'' 2 ?s"
    by (rule b [rule_format]) simp
  moreover from a
  have "\<exists>s'. main_loop 3 dead ''general'' ''C123'' 2 ?s = Raised too_many_retries s' \<and>
             connect_calls s' = 4"
    by auto
  ultimately show ?thesis by blast
qed

text \<open>
  With \<^verbatim>\<open>--retries -1\<close> the run makes one reconnect attempt before the fatal exit, which
  is more than \<^verbatim>\<open>max_retries + 1 = 0\<close>.
\<close>

theorem retry_ceiling_negative_retries:
  "\<not> reconnect_attempts (cli dead (Some ''xoxb-1'') ''general'' 0 (- 1) False 1) \<le> - 1 + 1"
  by (simp add: reconnect_attempts_def cli_def Let_def dead_def general_only_def
      find_channel_id_def loop_pass_def)

text \<open>
  C3, as amended. A successful reconnect attempt does not reset \<open>retry_count\<close>: it adds
  1 to it, whatever its value. So after two failed attempts and a successful third
  one, from \<open>retry_count = 0\<close> and with a ceiling above 1, \<open>retry_count\<close> is 3, and the
  next pass that reads a batch and completes sets it to 0.
\<close>

theorem reconnect_increments_retry_count:
  "(rtm_read sc (read_calls s) = WebSocketConnectionClosedException \<and>
    rtm_connect sc (connect_calls s) \<longrightarrow>
      (\<exists>s'. loop_pass sc channel channel_id retries s = Ok s' \<and>
            retry_count s' = retry_count s + 1)) \<and>
   (retry_count s = 0 \<and> 1 < retries \<and>
    rtm_read sc (read_calls s) = WebSocketConnectionClosedException \<and>
    rtm_read sc (Suc (read_calls s)) = WebSocketConnectionClosedException \<and>
    rtm_read sc (Suc (Suc (read_calls s))) = WebSocketConnectionClosedException \<and>
    \<not> rtm_connect sc (connect_calls s) \<and>
    \<not> rtm_connect sc (Suc (connect_calls s)) \<and>
    rtm_connect sc (Suc (Suc (connect_calls s))) \<longrightarrow>
      (\<exists>s3. main_loop 3 sc channel channel_id retries s = Ok s3 \<and> retry_count s3 = 3 \<and>
            (\<forall>batch s4. rtm_read sc (read_calls s3) = Events batch \<and>
                        loop_pass sc channel channel_id retries s3 = Ok s4 \<longrightarrow>
                        retry_count s4 = 0)))"
proof (intro conjI impI)
  assume "rtm_read sc (read_calls s) = WebSocketConnectionClosedException \<and>
          rtm_connect sc (connect_calls s)"
  then show "\<exists>s'. loop_pass sc channel channel_id retries s = Ok s' \<and>
                  retry_count s' = retry_count s + 1"
    using loop_pass_reconnect_succeeds [of sc s channel channel_id retries] by blast
next
  assume h: "retry_count s = 0 \<and> 1 < retries \<and>
    rtm_read sc (read_calls s) = WebSocketConnectionClosedException \<and>
    rtm_read sc (Suc (read_calls s)) = WebSocketConnectionClosedException \<and>
    rtm_read sc (Suc (Suc (read_calls s))) = WebSocketConnectionClosedException \<and>
    \<not> rtm_connect sc (connect_calls s) \<and>
    \<not> rtm_connect sc (Suc (connect_calls s)) \<and>
    rtm_connect sc (Suc (Suc (connect_calls s)))"
  then have "retry_count s < retries" by simp
  from loop_pass_reconnect_fails(2) [OF _ _ this, of sc channel channel_id] h
  obtain s1 where s1: "loop_pass sc channel channel_id retries s = Ok s1"
    "connect_calls s1 = Suc (connect_calls s)" "read_calls s1 = Suc (read_calls s)"
    "retry_count s1 = 1"
    by auto
  have "retry_count s1 < retries" using h s1(4) by simp
  from loop_pass_reconnect_fails(2) [OF _ _ this, of sc channel channel_id] h s1
  obtain s2 where s2: "loop_pass sc channel channel_id retries s1 = Ok s2"
    "connect_calls s2 = Suc (Suc (connect_calls s))" "read_calls s2 = Suc (Suc (read_calls s))"
    "retry_count s2 = 2"
    by auto
  from loop_pass_reconnect_succeeds [of sc s2 channel channel_id retries] h s2
  obtain s3 where s3: "loop_pass sc channel channel_id retries s2 = Ok s3"
    "retry_count s3 = 3"
    by auto
  have "main_loop 3 sc channel channel_id retries s = Ok s3"
    using s1(1) s2(1) s3(1) by (simp add: numeral_3_eq_3)
  then show "\<exists>s3. main_loop 3 sc channel channel_id retries s = Ok s3 \<and> retry_count s3 = 3 \<and>
            (\<forall>batch s4. rtm_read sc (read_calls s3) = Events batch \<and>
                        loop_pass sc channel channel_id retries s3 = Ok s4 \<longrightarrow>
                        retry_count s4 = 0)"
    using s3(2) loop_pass_events by blast
qed

text \<open>
  The scenario with \<^verbatim>\<open>max_retries = 8\<close>: three passes after the loss end with
  \<open>retry_count = 3\<close>; and a successful attempt at \<open>retry_count = 2\<close> gives 3.
\<close>

theorem reconnect_increments_retry_count_witness:
  "(\<exists>s'. loop_pass flaky ''general'' ''C123'' 8
           (start\<lparr>retry_count := 2, connect_calls := 3, read_calls := 2\<rparr>) = Ok s' \<and>
         retry_count s' = 3) \<and>
   (\<exists>s3. main_loop 3 flaky ''general'' ''C123'' 8 (start\<lparr>connect_calls := 1\<rparr>) = Ok s3 \<and>
         retry_count s3 = 3)"
proof -
  let ?t = "start\<lparr>retry_count := 2, connect_calls := 3, read_calls := 2\<rparr>"
  let ?s = "start\<lparr>connect_calls := 1\<rparr>"
  have a: "rtm_read flaky (read_calls ?t) = WebSocketConnectionClosedException \<and>
           rtm_connect flaky (connect_calls ?t)"
    by (simp add: flaky_def general_only_def)
  have b: "retry_count ?s = 0 \<and> 1 < (8::int) \<and>
    rtm_read flaky (read_calls ?s) = WebSocketConnectionClosedException \<and>
    rtm_read flaky (Suc (read_calls ?s)) = WebSocketConnectionClosedException \<and>
    rtm_read flaky (Suc (Suc (read_calls ?s))) = WebSocketConnectionClosedException \<and>
    \<not> rtm_connect flaky (connect_calls ?s) \<and>
    \<not> rtm_connect flaky (Suc (connect_calls ?s)) \<and>
    rtm_connect flaky (Suc (Suc (connect_calls ?s)))"
    by (simp add: flaky_def general_only_def start_def)
  have c: "retry_count ?t = 2" by simp
  from reconnect_increments_retry_count [of flaky ?t "''general''" "''C123''" 8] a c
  have "\<exists>s'. loop_pass flaky ''general'' ''C123'' 8 ?t = Ok s' \<and> retry_count s' = 3"
    by auto
  moreover
  from reconnect_increments_retry_count [of flaky ?s "''general''" "''C123''" 8] b
  have "\<exists>s3. main_loop 3 flaky ''general'' ''C123'' 8 ?s = Ok s3 \<and> retry_count s3 = 3"
    by blast
  ultimately show ?thesis by blast
qed

text \<open>
  The scenario run from the start: after the two failed attempts \<open>retry_count\<close> is 2,
  and the pass of the successful third attempt (its last record is
  \<^verbatim>\<open>Reconnected to Slack\<close>) leaves it at 3, not at 2.
\<close>

theorem reconnect_changes_retry_count:
  "retry_count (state_of (cli flaky (Some ''xoxb-1'') ''general'' 0 8 False 2)) = 2 \<and>
   retry_count (state_of (cli flaky (Some ''xoxb-1'') ''general'' 0 8 False 3)) = 3 \<and>
   last (logged (state_of (cli flaky (Some ''xoxb-1'') ''general'' 0 8 False 3))) =
     (INFO, Text ''Reconnected to Slack'')"
  by (simp add: cli_def Let_def flaky_def general_only_def find_channel_id_def loop_pass_def
      numeral_2_eq_2 numeral_3_eq_3 emit_def effective_level_def setup_logging_def start_def
      INFO_def DEBUG_def ERROR_def)

section \<open>The one-shot entry point: results\<close>

text \<open>
  C8, as amended. In \<^verbatim>\<open>sendMessage.py\<close>, with a message text that is given and not
  empty, after a successful connect and channel resolution: exactly one send call is
  made, with the channel and exactly the text; no read is made; and the exit status is
  0 when that send call returns, and 1 when it raises \<^verbatim>\<open>AttributeError\<close>, which
  nothing in this file catches.
\<close>

theorem one_shot_sends_once:
  assumes "verbose \<le> 11" and "truthy api_token" and "rtm_connect sc 0"
    and "find_channel_id channel sc = Inr channel_id" and "text \<noteq> []"
  shows "send_calls (state_of (sendMessage_cli sc api_token channel verbose retries (Some text)))
           = [(channel, text)] \<and>
         read_calls (state_of (sendMessage_cli sc api_token channel verbose retries (Some text)))
           = 0 \<and>
         exit_status (sendMessage_cli sc api_token channel verbose retries (Some text))
           = (if rtm_send_message sc 0 = Sent then 0 else 1)"
  using assms
  by (cases "rtm_send_message sc 0") (simp_all add: sendMessage_cli_def Let_def send_def)

theorem one_shot_sends_once_witness:
  "send_calls (state_of (sendMessage_cli general_only (Some ''xoxb-1'') ''general'' 0 8 (Some ''hi'')))
     = [(''general'', ''hi'')] \<and>
   read_calls (state_of (sendMessage_cli general_only (Some ''xoxb-1'') ''general'' 0 8 (Some ''hi'')))
     = 0 \<and>
   exit_status (sendMessage_cli general_only (Some ''xoxb-1'') ''general'' 0 8 (Some ''hi'')) = 0"
proof -
  have a: "(0::nat) \<le> 11" by simp
  have b: "truthy (Some ''xoxb-1'')" by simp
  have c: "rtm_connect general_only 0" by (simp add: general_only_def)
  have d: "find_channel_id ''general'' general_only = Inr ''C123''"
    by (simp add: find_channel_id_def general_only_def)
  have e: "''hi'' \<noteq> []" by simp
  have f: "rtm_send_message general_only 0 = Sent" by (simp add: general_only_def)
  show ?thesis
    using one_shot_sends_once [OF a b c d e, of 8] f by simp
qed

text \<open>
  A client that connects and lists the channel, and whose send raises: the run makes
  its one send call and ends with exit status 1.
\<close>

theorem one_shot_send_raises:
  "rtm_connect never_sends 0 \<and>
   find_channel_id ''general'' never_sends = Inr ''C123'' \<and>
   send_calls (state_of (sendMessage_cli never_sends (Some ''xoxb-1'') ''general'' 0 8 (Some ''hi'')))
     = [(''general'', ''hi'')] \<and>
   exit_status (sendMessage_cli never_sends (Some ''xoxb-1'') ''general'' 0 8 (Some ''hi'')) \<noteq> 0"
  by (simp add: sendMessage_cli_def Let_def send_def never_sends_def general_only_def
      find_channel_id_def)

text \<open>
  An empty text (an empty \<^verbatim>\<open>--message\<close>) fails the test \<^verbatim>\<open>if message:\<close>: the run makes no
  send call and returns.
\<close>

lemma one_shot_empty_text:
  "send_calls (state_of (sendMessage_cli general_only (Some ''xoxb-1'') ''general'' 0 8 (Some [])))
     = [] \<and>
   exit_status (sendMessage_cli general_only (Some ''xoxb-1'') ''general'' 0 8 (Some [])) = 0"
  by (simp add: sendMessage_cli_def Let_def general_only_def find_channel_id_def)

section \<open>Verbosity and control flow\<close>

lemma quiet_emit [simp]: "quiet (emit l p s) = quiet s"
  by (simp add: quiet_def emit_def)

lemma quiet_setup_logging [simp]: "quiet (setup_logging v s) = quiet s"
  by (simp add: setup_logging_def quiet_def)

lemma quiet_fields [simp]:
  "send_calls (quiet s) = send_calls s" "read_calls (quiet s) = read_calls s"
  "connect_calls (quiet s) = connect_calls s" "retry_count (quiet s) = retry_count s"
  "slept (quiet s) = slept s" "logger_level (quiet s) = logger_level s"
  by (simp_all add: quiet_def)

lemma quiet_eq_fields:
  assumes "quiet s = quiet t"
  shows "send_calls s = send_calls t" "read_calls s = read_calls t"
    "connect_calls s = connect_calls t" "retry_count s = retry_count t"
    "slept s = slept t" "logger_level s = logger_level t"
  using assms quiet_fields by metis+

lemma quiet_updates [simp]:
  "quiet (s\<lparr>send_calls := a\<rparr>) = (quiet s)\<lparr>send_calls := a\<rparr>"
  "quiet (s\<lparr>read_calls := b\<rparr>) = (quiet s)\<lparr>read_calls := b\<rparr>"
  "quiet (s\<lparr>connect_calls := c\<rparr>) = (quiet s)\<lparr>connect_calls := c\<rparr>"
  "quiet (s\<lparr>retry_count := d\<rparr>) = (quiet s)\<lparr>retry_count := d\<rparr>"
  "quiet (s\<lparr>slept := e\<rparr>) = (quiet s)\<lparr>slept := e\<rparr>"
  "quiet (s\<lparr>logger_level := f\<rparr>) = (quiet s)\<lparr>logger_level := f\<rparr>"
  by (simp_all add: quiet_def)

lemma flow_eq_cases:
  assumes "flow a = flow b"
  obtains s t where "a = Ok s" "b = Ok t" "quiet s = quiet t"
  | e s t where "a = Raised e s" "b = Raised e t" "quiet s = quiet t"
  using assms by (cases a; cases b) auto

text \<open>Each step of the program takes states with the same flow to outcomes with the same flow.\<close>

lemma flow_send:
  assumes "quiet s = quiet t"
  shows "fst (send sc channel text s) = fst (send sc channel text t)"
    and "quiet (snd (send sc channel text s)) = quiet (snd (send sc channel text t))"
  using assms quiet_eq_fields(1) [OF assms] by (simp_all add: send_def)

lemma flow_handle_message:
  assumes "quiet s = quiet t"
  shows "flow (handle_message m channel channel_id sc s) =
         flow (handle_message m channel channel_id sc t)"
  using assms quiet_eq_fields(1) [OF assms]
  by (auto simp: handle_message_def Let_def send_def split: option.splits send_result.splits)

lemma flow_handle_messages:
  assumes "quiet s = quiet t"
  shows "flow (handle_messages ms channel channel_id sc s) =
         flow (handle_messages ms channel channel_id sc t)"
  using assms
proof (induction ms arbitrary: s t)
  case Nil
  then show ?case by simp
next
  case (Cons m ms)
  from flow_handle_message [OF Cons.prems, of m channel channel_id sc]
  show ?case
  proof (cases rule: flow_eq_cases)
    case (1 s1 t1)
    then show ?thesis using Cons.IH [of s1 t1] by simp
  next
    case (2 e s1 t1)
    then show ?thesis by simp
  qed
qed

lemma flow_loop_pass:
  assumes "quiet s = quiet t"
  shows "flow (loop_pass sc channel channel_id retries s) =
         flow (loop_pass sc channel channel_id retries t)"
proof (cases "rtm_read sc (read_calls s)")
  case (Events batch)
  have q: "quiet (s\<lparr>read_calls := Suc (read_calls s)\<rparr>) =
           quiet (t\<lparr>read_calls := Suc (read_calls t)\<rparr>)"
    using assms quiet_eq_fields(2) [OF assms] by simp
  from flow_handle_messages [OF q, of batch channel channel_id sc]
  show ?thesis
  proof (cases rule: flow_eq_cases)
    case (1 s1 t1)
    then show ?thesis
      using Events quiet_eq_fields(2) [OF assms] quiet_eq_fields(5) [OF 1(3)]
      by (simp add: loop_pass_def Let_def)
  next
    case (2 e s1 t1)
    then show ?thesis
      using Events quiet_eq_fields(2) [OF assms] by (simp add: loop_pass_def Let_def)
  qed
next
  case WebSocketConnectionClosedException
  then show ?thesis
    using assms quiet_eq_fields [OF assms]
    by (simp add: loop_pass_def Let_def)
qed

lemma flow_main_loop:
  assumes "quiet s = quiet t"
  shows "flow (main_loop n sc channel channel_id retries s) =
         flow (main_loop n sc channel channel_id retries t)"
  using assms
proof (induction n arbitrary: s t)
  case 0
  then show ?case by simp
next
  case (Suc n)
  from flow_loop_pass [OF Suc.prems, of sc channel channel_id retries]
  show ?case
  proof (cases rule: flow_eq_cases)
    case (1 s1 t1)
    then show ?thesis using Suc.IH [of s1 t1] by simp
  next
    case (2 e s1 t1)
    then show ?thesis by simp
  qed
qed

lemma flow_cli_below:
  assumes "v1 \<le> 11" "v2 \<le> 11"
  shows "flow (cli sc api_token channel v1 retries announce passes) =
         flow (cli sc api_token channel v2 retries announce passes)"
proof (cases "truthy api_token \<and> rtm_connect sc 0")
  case False
  then show ?thesis
    using assms by (auto simp: cli_def Let_def)
next
  case True
  show ?thesis
  proof (cases "find_channel_id channel sc")
    case (Inl e)
    then show ?thesis
      using assms True by (simp add: cli_def Let_def)
  next
    case (Inr channel_id)
    define base where "base v =
      (emit INFO (Text (''Listening for joins in #'' @ channel))
        (emit DEBUG (Text (''Found channel ID '' @ channel_id @ '' for #'' @ channel))
          (emit INFO (Text ''Connected to Slack'')
            ((setup_logging v start)
               \<lparr>connect_calls := Suc (connect_calls (setup_logging v start))\<rparr>))))
        \<lparr>retry_count := 0\<rparr>" for v
    have q: "quiet (base v1) = quiet (base v2)"
      by (simp add: base_def)
    have c: "cli sc api_token channel v retries announce passes =
        (if announce
         then (case send sc channel
                      (''hello party people '' @ [CHR 0xF0, CHR 0x9F, CHR 0x8E, CHR 0x89])
                      (base v) of
                 (Sent, s6) \<Rightarrow> main_loop passes sc channel channel_id retries s6
               | (SendAttributeError, s6) \<Rightarrow> Raised AttributeError s6)
         else main_loop passes sc channel channel_id retries (base v))"
      if "v \<le> 11" for v
      using that True Inr
      by (simp add: cli_def Let_def base_def)
    show ?thesis
    proof (cases announce)
      case False
      then show ?thesis
        using c [OF assms(1)] c [OF assms(2)] flow_main_loop [OF q] by simp
    next
      case True
      let ?text = "''hello party people '' @ [CHR 0xF0, CHR 0x9F, CHR 0x8E, CHR 0x89]"
      obtain r1 s1 where s1: "send sc channel ?text (base v1) = (r1, s1)" by fastforce
      obtain r2 s2 where s2: "send sc channel ?text (base v2) = (r2, s2)" by fastforce
      from flow_send [OF q, of sc channel ?text] s1 s2
      have r: "r1 = r2" and qs: "quiet s1 = quiet s2" by simp_all
      show ?thesis
        using c [OF assms(1)] c [OF assms(2)] True s1 s2 r qs flow_main_loop [OF qs]
        by (cases r2) simp_all
    qed
  qed
qed

lemma flow_sendMessage_cli_below:
  assumes "v1 \<le> 11" "v2 \<le> 11"
  shows "flow (sendMessage_cli sc api_token channel v1 retries message) =
         flow (sendMessage_cli sc api_token channel v2 retries message)"
  using assms
  by (auto simp: sendMessage_cli_def Let_def send_def
      split: sum.splits option.splits send_result.splits)

lemma cli_beyond_eleven:
  "11 < v \<Longrightarrow>
     cli sc api_token channel v retries announce passes = Raised beyond_eleven start"
  "11 < v \<Longrightarrow>
     sendMessage_cli sc api_token channel v retries message = Raised beyond_eleven start"
  by (simp_all add: cli_def sendMessage_cli_def beyond_eleven_def)

text \<open>
  C9, as amended. Two runs that differ only in the verbosity level, with both levels
  on the same side of the limit 11, have the same control flow, in both entry points:
  the same exception or return, the same calls on the client with the same arguments,
  the same sleeps and the same \<open>retry_count\<close>; only the log differs. (A level above 11
  ends the run with the fatal exit \<^verbatim>\<open>It doesn't go beyond 11\<close> before anything else.)
\<close>

theorem verbosity_keeps_flow:
  assumes "(11 < v1) = (11 < v2)"
  shows "flow (cli sc api_token channel v1 retries announce passes) =
           flow (cli sc api_token channel v2 retries announce passes) \<and>
         flow (sendMessage_cli sc api_token channel v1 retries message) =
           flow (sendMessage_cli sc api_token channel v2 retries message)"
proof (cases "11 < v1")
  case True
  then have "11 < v2" using assms by simp
  with True show ?thesis by (simp add: cli_beyond_eleven)
next
  case False
  then have "v1 \<le> 11" "v2 \<le> 11" using assms by auto
  then show ?thesis
    using flow_cli_below flow_sendMessage_cli_below by blast
qed

theorem verbosity_keeps_flow_witness:
  "flow (cli (reads_first [join_ada]) (Some ''xoxb-1'') ''general'' 0 8 True 2) =
     flow (cli (reads_first [join_ada]) (Some ''xoxb-1'') ''general'' 3 8 True 2) \<and>
   flow (sendMessage_cli general_only (Some ''xoxb-1'') ''general'' 0 8 (Some ''hi'')) =
     flow (sendMessage_cli general_only (Some ''xoxb-1'') ''general'' 3 8 (Some ''hi'')) \<and>
   logged (state_of (sendMessage_cli general_only (Some ''xoxb-1'') ''general'' 0 8 (Some ''hi'')))
     \<noteq>
   logged (state_of (sendMessage_cli general_only (Some ''xoxb-1'') ''general'' 3 8 (Some ''hi'')))"
proof -
  have h: "(11 < (0::nat)) = (11 < (3::nat))" by simp
  have l: "logged (state_of (sendMessage_cli general_only (Some ''xoxb-1'') ''general'' 0 8 (Some ''hi'')))
     \<noteq>
   logged (state_of (sendMessage_cli general_only (Some ''xoxb-1'') ''general'' 3 8 (Some ''hi'')))"
    by (simp add: sendMessage_cli_def Let_def send_def general_only_def find_channel_id_def
        emit_def effective_level_def setup_logging_def start_def INFO_def DEBUG_def)
  show ?thesis
    using verbosity_keeps_flow [OF h, of "reads_first [join_ada]" "Some ''xoxb-1''" "''general''"
        8 True 2 "Some ''hi''"]
      verbosity_keeps_flow [OF h, of general_only "Some ''xoxb-1''" "''general''"
        8 True 2 "Some ''hi''"] l
    by blast
qed

text \<open>
  Verbosity 12 against verbosity 0, all else equal: the first run exits at once, the
  second connects and runs its loop.
\<close>

theorem verbosity_changes_flow:
  "flow (cli general_only (Some ''xoxb-1'') ''general'' 12 8 False 1) \<noteq>
   flow (cli general_only (Some ''xoxb-1'') ''general'' 0 8 False 1)"
  by (simp add: cli_def Let_def general_only_def find_channel_id_def loop_pass_def)

end
